theory Spec2Isabelle
  imports Complex_Main "HOL-Library.Sublist"
begin

section \<open>Numbers\<close>

text \<open>
  The scripts compute with Python floats. They are modelled as real numbers, so every
  statement below is about the exact arithmetic of the formulas in the source; decimal
  constants of the source (\<open>38.5200\<close>, \<open>-89.9839\<close>) are the decimal fractions they
  denote.

  \<open>round(x, 1)\<close> rounds to one decimal place, a tie going to the even neighbour.
  \<open>py_round\<close> is that rounding to an integer and \<open>round1\<close> applies it to tenths.
\<close>

definition py_round :: "real \<Rightarrow> int" where
  "py_round y =
     (let f = \<lfloor>y\<rfloor>; d = y - of_int f
      in if d < 1 / 2 then f else if 1 / 2 < d then f + 1 else if even f then f else f + 1)"

definition round1 :: "real \<Rightarrow> real" where
  "round1 x = of_int (py_round (x * 10)) / 10"

text \<open>
  \<open>min(xs)\<close> and \<open>max(xs)\<close> over a list. Python raises \<open>ValueError\<close> on an empty
  list; every call below is on a list the caller has found non-empty, and the places where
  the list may be empty return \<open>None\<close> before calling.
\<close>

fun py_min :: "real list \<Rightarrow> real" where
  "py_min (x # xs) = fold min xs x"

fun py_max :: "real list \<Rightarrow> real" where
  "py_max (x # xs) = fold max xs x"

section \<open>Reference frames and projection\<close>

text \<open>
  Each script holds its frame in the module constants \<open>CENTER_LAT\<close>, \<open>CENTER_LON\<close>,
  \<open>LAT_TO_METERS\<close> and \<open>LON_TO_METERS\<close> (\<open>rebuild_all.py\<close> computes the two centre
  constants from data before it defines \<open>to_local\<close>). The constants are collected in a
  record that the projection functions take as their first argument.
\<close>

record frame =
  center_lat :: real
  center_lon :: real
  lat_to_meters :: real
  lon_to_meters :: real

type_synonym point = "real \<times> real"

text \<open>\<open>extract_downtown.py\<close>, \<open>convert_to_local\<close>: no rounding inside the function.\<close>

definition convert_to_local :: "frame \<Rightarrow> real \<Rightarrow> real \<Rightarrow> point" where
  "convert_to_local fr lon lat =
     (let x = (lon - center_lon fr) * lon_to_meters fr;
          z = - (lat - center_lat fr) * lat_to_meters fr
      in (x, z))"

text \<open>\<open>extract_streets.py\<close>, \<open>convert_to_local\<close>: the same formulas, rounded on return.\<close>

definition convert_to_local_streets :: "frame \<Rightarrow> real \<Rightarrow> real \<Rightarrow> point" where
  "convert_to_local_streets fr lon lat =
     (let x = (lon - center_lon fr) * lon_to_meters fr;
          z = - (lat - center_lat fr) * lat_to_meters fr
      in (round1 x, round1 z))"

text \<open>\<open>rebuild_all.py\<close> and \<open>fetch_landuse.py\<close>, \<open>to_local\<close> (the two bodies are the same).\<close>

definition to_local :: "frame \<Rightarrow> real \<Rightarrow> real \<Rightarrow> point" where
  "to_local fr lon lat =
     (let x = (lon - center_lon fr) * lon_to_meters fr;
          z = - (lat - center_lat fr) * lat_to_meters fr
      in (round1 x, round1 z))"

text \<open>\<open>scripts/fetch-overture-data.py\<close>, \<open>latlon_to_local\<close>, with \<open>math.radians\<close>.\<close>

definition radians :: "real \<Rightarrow> real" where
  "radians d = d * pi / 180"

definition latlon_to_local :: "real \<Rightarrow> real \<Rightarrow> real \<Rightarrow> real \<Rightarrow> point" where
  "latlon_to_local lon lat c_lon c_lat =
     (let x = (lon - c_lon) * 111000 * cos (radians c_lat);
          z = (lat - c_lat) * 111000
      in (round1 x, round1 z))"

text \<open>The constants of \<open>extract_downtown.py\<close> and \<open>extract_streets.py\<close>.\<close>

definition CENTER_LAT :: real where "CENTER_LAT = 38.5200"
definition CENTER_LON :: real where "CENTER_LON = - 89.9839"
definition LAT_TO_METERS :: real where "LAT_TO_METERS = 111000"
definition LON_TO_METERS :: real where "LON_TO_METERS = 87000"

definition downtown_frame :: frame where
  "downtown_frame =
     \<lparr>center_lat = CENTER_LAT, center_lon = CENTER_LON,
      lat_to_meters = LAT_TO_METERS, lon_to_meters = LON_TO_METERS\<rparr>"

text \<open>The constants of \<open>scripts/fetch-overture-data.py\<close>.\<close>

definition OVERTURE_CENTER_LAT :: real where "OVERTURE_CENTER_LAT = 38.5170"
definition OVERTURE_CENTER_LON :: real where "OVERTURE_CENTER_LON = - 89.9842"

text \<open>The constants of \<open>fetch_landuse.py\<close>.\<close>

definition landuse_frame :: frame where
  "landuse_frame =
     \<lparr>center_lat = 38.521326, center_lon = - 89.984205,
      lat_to_meters = 111000, lon_to_meters = 87000\<rparr>"

section \<open>Bounding regions\<close>

text \<open>
  The scripts keep a region in the four variables \<open>min_x\<close>, \<open>max_x\<close>, \<open>min_z\<close>,
  \<open>max_z\<close>. The test \<open>min_x <= pt[0] <= max_x and min_z <= pt[1] <= max_z\<close> is written
  inline in \<open>finalize_streets.py\<close>, \<open>fix_alignment.py\<close> and \<open>align_streets.py\<close>; a
  chained comparison \<open>a <= b <= c\<close> is \<open>a <= b and b <= c\<close>.
\<close>

record region =
  min_x :: real
  max_x :: real
  min_z :: real
  max_z :: real

definition in_bounds :: "region \<Rightarrow> point \<Rightarrow> bool" where
  "in_bounds r pt =
     ((min_x r \<le> fst pt \<and> fst pt \<le> max_x r) \<and> (min_z r \<le> snd pt \<and> snd pt \<le> max_z r))"

section \<open>Features\<close>

text \<open>
  A street as the JSON files hold it: the keys \<open>id\<close>, \<open>name\<close>, \<open>type\<close>, \<open>points\<close>,
  \<open>width\<close> and \<open>color\<close>. The identifier \<open>street-<n>\<close> is kept as the number \<open>n\<close>.
  A building has \<open>id\<close> (the number of \<open>bldg-<n>\<close>), \<open>footprint\<close>, \<open>position\<close>,
  \<open>size\<close> and \<open>color\<close>.
\<close>

record street =
  street_id :: int
  name :: string
  highway_type :: string
  points :: "point list"
  width :: int
  street_color :: string

record building =
  bldg_id :: nat
  footprint :: "point list"
  position :: "real \<times> real \<times> real"
  size3 :: "real \<times> real \<times> real"
  color :: string

section \<open>Polygon simplification and height estimate\<close>

text \<open>\<open>range(0, n, step)\<close> for \<open>step \<ge> 1\<close>: the multiples of \<open>step\<close> below \<open>n\<close>.\<close>

definition range_step :: "nat \<Rightarrow> nat \<Rightarrow> nat list" where
  "range_step n step = map (\<lambda>k. k * step) [0..<(n + step - 1) div step]"

text \<open>
  \<open>extract_downtown.py\<close>, \<open>simplify_polygon\<close>. Past the first test the list has more
  than four points, so \<open>simplified\<close> holds \<open>points[0]\<close> and \<open>simplified[0]\<close>,
  \<open>simplified[-1]\<close> are its head and last element.
\<close>

definition simplify_polygon :: "point list \<Rightarrow> point list" where
  "simplify_polygon pts =
     (if length pts \<le> 4 then pts
      else
        let step = max 1 (length pts div 20);
            simplified = map (\<lambda>i. pts ! i) (range_step (length pts) step)
        in if hd simplified \<noteq> last simplified then simplified @ [hd simplified]
           else simplified)"

text \<open>
  \<open>rebuild_all.py\<close>, lines 174 to 175: the same decimation written inline, with neither
  the length test nor the closing step.
\<close>

definition decimate :: "point list \<Rightarrow> point list" where
  "decimate local_points =
     (let step = max 1 (length local_points div 20)
      in map (\<lambda>i. local_points ! i) (range_step (length local_points) step))"

text \<open>The height rule, written inline in both building scripts.\<close>

definition estimate_height :: "real \<Rightarrow> real" where
  "estimate_height area =
     (if area < 50 then 5 + area / 10
      else if area < 200 then 8 + area / 30
      else if area < 500 then 12 + area / 50
      else 18 + min (area / 80) 25)"

section \<open>Building extraction\<close>

definition MIN_LAT :: real where "MIN_LAT = 38.516"
definition MAX_LAT :: real where "MAX_LAT = 38.526"
definition MIN_LON :: real where "MIN_LON = - 89.993"
definition MAX_LON :: real where "MAX_LON = - 89.975"

definition colors :: "string list" where
  "colors =
     [''#74b9ff'', ''#a29bfe'', ''#fd79a8'', ''#ffeaa7'', ''#81ecec'',
      ''#fab1a0'', ''#00b894'', ''#e17055'', ''#6c5ce7'', ''#fdcb6e'',
      ''#55efc4'', ''#b2bec3'', ''#dfe6e9'', ''#636e72'']"

text \<open>
  The sort by squared distance of the position from the origin (Python's sort is stable,
  as \<open>sort_key\<close> is), then the colour and the new number of every building.
\<close>

definition dist2 :: "building \<Rightarrow> real" where
  "dist2 b = (fst (position b))\<^sup>2 + (snd (snd (position b)))\<^sup>2"

definition finish_buildings :: "building list \<Rightarrow> building list" where
  "finish_buildings buildings =
     map (\<lambda>(i, b). b\<lparr>color := colors ! (i mod length colors), bldg_id := i + 1\<rparr>)
       (enumerate 0 (sort_key dist2 buildings))"

text \<open>
  \<open>extract_downtown.py\<close>, the body of the loop of \<open>main\<close> for one shape. The shapefile
  reader and the coordinate transformer are outside the code; \<open>tr\<close> is the transformer
  (state plane to longitude and latitude) and a shape is its list of points. \<open>None\<close>
  is a \<open>continue\<close>. The identifier given in the loop is overwritten after the sort.
\<close>

definition downtown_shape :: "(point \<Rightarrow> point) \<Rightarrow> point list \<Rightarrow> building option" where
  "downtown_shape tr pts =
     (if pts = [] then None
      else
        let (lon, lat) = tr (hd pts)
        in if \<not> ((MIN_LAT \<le> lat \<and> lat \<le> MAX_LAT) \<and> (MIN_LON \<le> lon \<and> lon \<le> MAX_LON))
           then None
           else
             let local_points =
                   map (\<lambda>p. let (plon, plat) = tr p;
                                (lx, lz) = convert_to_local downtown_frame plon plat
                            in (round1 lx, round1 lz)) pts;
                 local_points = simplify_polygon local_points;
                 xs = map fst local_points;
                 zs = map snd local_points;
                 width = py_max xs - py_min xs;
                 depth = py_max zs - py_min zs;
                 center_x = (py_min xs + py_max xs) / 2;
                 center_z = (py_min zs + py_max zs) / 2
             in if width < 3 \<or> depth < 3 then None
                else
                  let area = width * depth;
                      height = estimate_height area
                  in Some \<lparr>bldg_id = 0, footprint = local_points,
                            position = (round1 center_x, 0, round1 center_z),
                            size3 = (round1 width, round1 height, round1 depth),
                            color = []\<rparr>)"

definition extract_downtown :: "(point \<Rightarrow> point) \<Rightarrow> point list list \<Rightarrow> building list" where
  "extract_downtown tr shapes = finish_buildings (List.map_filter (downtown_shape tr) shapes)"

text \<open>\<open>rebuild_all.py\<close>, step 3, the body of the loop for one shape.\<close>

definition rebuild_shape :: "frame \<Rightarrow> (point \<Rightarrow> point) \<Rightarrow> point list \<Rightarrow> building option" where
  "rebuild_shape fr tr pts =
     (if pts = [] then None
      else
        let (lon, lat) = tr (hd pts)
        in if \<not> ((MIN_LAT \<le> lat \<and> lat \<le> MAX_LAT) \<and> (MIN_LON \<le> lon \<and> lon \<le> MAX_LON))
           then None
           else
             let local_points = map (\<lambda>p. let (plon, plat) = tr p in to_local fr plon plat) pts;
                 local_points = decimate local_points;
                 xs = map fst local_points;
                 zs = map snd local_points;
                 width = py_max xs - py_min xs;
                 depth = py_max zs - py_min zs
             in if width < 3 \<or> depth < 3 then None
                else
                  let area = width * depth;
                      height = estimate_height area
                  in Some \<lparr>bldg_id = 0, footprint = local_points,
                            position = (round1 ((py_min xs + py_max xs) / 2), 0,
                                        round1 ((py_min zs + py_max zs) / 2)),
                            size3 = (round1 width, round1 height, round1 depth),
                            color = []\<rparr>)"

definition rebuild_buildings :: "frame \<Rightarrow> (point \<Rightarrow> point) \<Rightarrow> point list list \<Rightarrow> building list" where
  "rebuild_buildings fr tr shapes = finish_buildings (List.map_filter (rebuild_shape fr tr) shapes)"

section \<open>Filtering streets against a region\<close>

text \<open>
  The region the three street scripts build: the bounding box of all footprint points of
  the buildings, widened by a margin. \<open>min\<close> of an empty list raises \<open>ValueError\<close>,
  which is \<open>None\<close> here.
\<close>

definition building_region :: "real \<Rightarrow> building list \<Rightarrow> region option" where
  "building_region margin buildings =
     (let bldg_xs = concat (map (\<lambda>b. map fst (footprint b)) buildings);
          bldg_zs = concat (map (\<lambda>b. map snd (footprint b)) buildings)
      in if bldg_xs = [] then None
         else Some \<lparr>min_x = py_min bldg_xs - margin, max_x = py_max bldg_xs + margin,
                    min_z = py_min bldg_zs - margin, max_z = py_max bldg_zs + margin\<rparr>)"

text \<open>
  \<open>finalize_streets.py\<close>, the loop "filter and clip streets": \<open>filtered\<close> is the list
  built by \<open>append\<close>; a kept street has its points replaced by those in bounds.
\<close>

fun clip_loop :: "region \<Rightarrow> street list \<Rightarrow> street list \<Rightarrow> street list" where
  "clip_loop r [] filtered = filtered"
| "clip_loop r (s # streets) filtered =
     (let pts_in_bounds = filter (in_bounds r) (points s)
      in if length pts_in_bounds \<ge> 2
         then clip_loop r streets (filtered @ [s\<lparr>points := pts_in_bounds\<rparr>])
         else clip_loop r streets filtered)"

definition finalize_streets :: "street list \<Rightarrow> building list \<Rightarrow> street list option" where
  "finalize_streets streets buildings =
     (case building_region 30 buildings of
        None \<Rightarrow> None
      | Some r \<Rightarrow> Some (clip_loop r streets []))"

text \<open>
  \<open>fix_alignment.py\<close> and \<open>align_streets.py\<close>: a street is kept when
  \<open>any(...)\<close> of its points is in bounds. The two scripts iterate in the same way, but
  for a local variable.
\<close>

fun keep_loop :: "region \<Rightarrow> street list \<Rightarrow> street list \<Rightarrow> street list" where
  "keep_loop r [] filtered = filtered"
| "keep_loop r (s # streets) filtered =
     (if list_ex (in_bounds r) (points s)
      then keep_loop r streets (filtered @ [s])
      else keep_loop r streets filtered)"

definition OFFSET_X :: real where "OFFSET_X = 27"

definition align_streets :: "street list \<Rightarrow> building list \<Rightarrow> street list option" where
  "align_streets streets buildings =
     (let streets =
            map (\<lambda>s. s\<lparr>points := map (\<lambda>pt. (round1 (fst pt + OFFSET_X), round1 (snd pt)))
                                      (points s)\<rparr>) streets
      in case building_region 100 buildings of
           None \<Rightarrow> None
         | Some r \<Rightarrow> Some (keep_loop r streets []))"

text \<open>
  \<open>fix_alignment.py\<close>: the offset between the two bounding-box centres is added to the
  streets before the filter. The bounding box printed after the filter takes \<open>min\<close> of
  the surviving points, so a run in which no street survives stops before the file is
  written.
\<close>

definition fix_alignment :: "street list \<Rightarrow> building list \<Rightarrow> street list option" where
  "fix_alignment streets buildings =
     (let bldg_xs = concat (map (\<lambda>b. map fst (footprint b)) buildings);
          bldg_zs = concat (map (\<lambda>b. map snd (footprint b)) buildings);
          street_xs = concat (map (\<lambda>s. map fst (points s)) streets);
          street_zs = concat (map (\<lambda>s. map snd (points s)) streets)
      in if bldg_xs = [] \<or> street_xs = [] then None
         else
           let bldg_center_x = (py_min bldg_xs + py_max bldg_xs) / 2;
               bldg_center_z = (py_min bldg_zs + py_max bldg_zs) / 2;
               street_center_x = (py_min street_xs + py_max street_xs) / 2;
               street_center_z = (py_min street_zs + py_max street_zs) / 2;
               offset_x = bldg_center_x - street_center_x;
               offset_z = bldg_center_z - street_center_z;
               streets =
                 map (\<lambda>s. s\<lparr>points := map (\<lambda>pt. (round1 (fst pt + offset_x),
                                                     round1 (snd pt + offset_z)))
                                           (points s)\<rparr>) streets;
               margin = 50;
               r = \<lparr>min_x = py_min bldg_xs - margin, max_x = py_max bldg_xs + margin,
                    min_z = py_min bldg_zs - margin, max_z = py_max bldg_zs + margin\<rparr>;
               filtered_streets = keep_loop r streets []
           in if concat (map (\<lambda>s. map fst (points s)) filtered_streets) = [] then None
              else Some filtered_streets)"

section \<open>Recentring on the fountain\<close>

text \<open>The constants shared by \<open>recenter_data.py\<close> and \<open>recenter_correct.py\<close>.\<close>

definition FOUNTAIN_LAT :: real where "FOUNTAIN_LAT = 38.522207"
definition FOUNTAIN_LON :: real where "FOUNTAIN_LON = - 89.984903"
definition OLD_CENTER_LAT :: real where "OLD_CENTER_LAT = 38.5200"
definition OLD_CENTER_LON :: real where "OLD_CENTER_LON = - 89.9839"

text \<open>\<open>recenter_data.py\<close>: the offset and the update of a point and of a building.\<close>

definition offset_x :: real where
  "offset_x = (FOUNTAIN_LON - OLD_CENTER_LON) * LON_TO_METERS"

definition offset_z :: real where
  "offset_z = - (FOUNTAIN_LAT - OLD_CENTER_LAT) * LAT_TO_METERS"

definition recenter_data_point :: "point \<Rightarrow> point" where
  "recenter_data_point pt = (round1 (fst pt - offset_x), round1 (snd pt - offset_z))"

definition recenter_data_building :: "building \<Rightarrow> building" where
  "recenter_data_building b =
     (let (p0, p1, p2) = position b;
          p0 = p0 - offset_x;
          p2 = p2 - offset_z
      in b\<lparr>footprint := map recenter_data_point (footprint b),
            position := (round1 p0, p1, round1 p2)\<rparr>)"

text \<open>\<open>recenter_correct.py\<close>: the shift, the hard-coded undo and their sum.\<close>

definition shift_x :: real where
  "shift_x = (OLD_CENTER_LON - FOUNTAIN_LON) * LON_TO_METERS"

definition shift_z :: real where
  "shift_z = - (OLD_CENTER_LAT - FOUNTAIN_LAT) * LAT_TO_METERS"

definition undo_x :: real where "undo_x = - 87.3"
definition undo_z :: real where "undo_z = - 245.0"

definition total_shift_x :: real where "total_shift_x = undo_x + shift_x"
definition total_shift_z :: real where "total_shift_z = undo_z + shift_z"

definition recenter_correct_point :: "point \<Rightarrow> point" where
  "recenter_correct_point pt =
     (round1 (fst pt + total_shift_x), round1 (snd pt + total_shift_z))"

definition recenter_correct_building :: "building \<Rightarrow> building" where
  "recenter_correct_building b =
     (let (p0, p1, p2) = position b
      in b\<lparr>position := (round1 (p0 + total_shift_x), p1, round1 (p2 + total_shift_z)),
            footprint := map recenter_correct_point (footprint b)\<rparr>)"

section \<open>Strings\<close>

text \<open>
  \<open>str.lower()\<close> on the ASCII letters, and the substring test \<open>sub in s\<close>.
\<close>

definition lower_char :: "char \<Rightarrow> char" where
  "lower_char c =
     (let n = (of_char c :: nat) in if 65 \<le> n \<and> n \<le> 90 then char_of (n + 32) else c)"

definition lower :: "string \<Rightarrow> string" where
  "lower s = map lower_char s"

fun contains :: "string \<Rightarrow> string \<Rightarrow> bool" where
  "contains sub [] = (sub = [])"
| "contains sub (c # cs) = (take (length sub) (c # cs) = sub \<or> contains sub cs)"

section \<open>Output files\<close>

text \<open>
  The two files the scripts overwrite, \<open>src/data/buildings.json\<close> and
  \<open>src/data/streets.json\<close>; \<open>None\<close> is a file that does not exist.
\<close>

record files =
  buildings_json :: "building list option"
  streets_json :: "street list option"

datatype status = Completed | Exited int string

text \<open>
  \<open>recenter_data.py\<close> as a whole: both files are rewritten, then the street whose name
  has \<open>illinois\<close> in it is looked for and the x values of the first one found are
  printed. The third component is what that last loop finds.
\<close>

definition recenter_data :: "building list \<Rightarrow> street list \<Rightarrow> files \<times> real list option" where
  "recenter_data buildings streets =
     (let buildings = map recenter_data_building buildings;
          streets = map (\<lambda>s. s\<lparr>points := map recenter_data_point (points s)\<rparr>) streets;
          written = \<lparr>buildings_json = Some buildings, streets_json = Some streets\<rparr>
      in (written,
          case find (\<lambda>s. contains ''illinois'' (lower (name s))) streets of
            None \<Rightarrow> None
          | Some s \<Rightarrow> Some (map fst (points s))))"

section \<open>Rebuilding from the map service\<close>

text \<open>
  An element of the response of the map service: a node with its identifier, longitude
  and latitude; a way with its identifier, its \<open>nodes\<close> key when present, and its tags
  (\<open>el.get('tags', {})\<close>, so a way without tags has the empty dictionary); any other
  type of element.
\<close>

datatype element =
    Node int real real
  | Way int "int list option" "string \<rightharpoonup> string"
  | Other int

text \<open>The dictionary comprehension \<open>nodes\<close>: a later node replaces an earlier one.\<close>

definition nodes_of :: "element list \<Rightarrow> (int \<rightharpoonup> point)" where
  "nodes_of elements =
     fold (\<lambda>el m. case el of Node i lon lat \<Rightarrow> m(i \<mapsto> (lon, lat)) | _ \<Rightarrow> m)
       elements Map.empty"

text \<open>
  \<open>rebuild_all.py\<close>, step 1. The query sent to the service asks for the ways named
  \<open>North Illinois Street\<close>; the script collects the coordinates of the nodes of every
  way of the response, whatever its tags.
\<close>

definition illinois_coords :: "element list \<Rightarrow> point list" where
  "illinois_coords elements =
     (let nodes = nodes_of elements
      in concat (map (\<lambda>el. case el of
                         Way i ns tags \<Rightarrow>
                           List.map_filter nodes (case ns of None \<Rightarrow> [] | Some l \<Rightarrow> l)
                       | _ \<Rightarrow> []) elements))"

definition illinois_frame :: "element list \<Rightarrow> frame option" where
  "illinois_frame elements =
     (let illinois_coords = illinois_coords elements
      in if illinois_coords \<noteq> [] then
           let avg_lon = sum_list (map fst illinois_coords) / real (length illinois_coords);
               avg_lat = sum_list (map snd illinois_coords) / real (length illinois_coords);
               lats = map snd illinois_coords;
               mid_lat = (py_min lats + py_max lats) / 2
           in Some \<lparr>center_lat = mid_lat, center_lon = avg_lon,
                     lat_to_meters = 111000, lon_to_meters = 87000\<rparr>
         else None)"

text \<open>\<open>rebuild_all.py\<close>, step 2: the streets, then the filter to the area.\<close>

definition street_types :: "string \<rightharpoonup> int \<times> string" where
  "street_types =
     map_of [(''primary'', (10, ''#3a3a4a'')), (''secondary'', (8, ''#3a3a4a'')),
             (''tertiary'', (7, ''#353545'')), (''residential'', (6, ''#353545'')),
             (''service'', (4, ''#303040''))]"

definition way_street :: "frame \<Rightarrow> (int \<rightharpoonup> point) \<Rightarrow> element \<Rightarrow> street option" where
  "way_street fr nodes el =
     (case el of
        Way i (Some ns) tags \<Rightarrow>
          let highway_type = (case tags ''highway'' of None \<Rightarrow> ''residential'' | Some h \<Rightarrow> h);
              nm = (case tags ''name'' of None \<Rightarrow> [] | Some n \<Rightarrow> n);
              pts = map (\<lambda>(lon, lat). to_local fr lon lat) (List.map_filter nodes ns)
          in if length pts \<ge> 2 then
               let type_info = (case street_types highway_type of
                                  None \<Rightarrow> (6, ''#353545'')
                                | Some t \<Rightarrow> t)
               in Some \<lparr>street_id = i, name = nm, highway_type = highway_type, points = pts,
                         width = fst type_info, street_color = snd type_info\<rparr>
             else None
      | _ \<Rightarrow> None)"

definition rebuild_streets :: "frame \<Rightarrow> element list \<Rightarrow> street list" where
  "rebuild_streets fr elements =
     (let streets = List.map_filter (way_street fr (nodes_of elements)) elements
      in filter (\<lambda>s. list_ex (\<lambda>p. (- 900 < fst p \<and> fst p < 900) \<and> (- 800 < snd p \<and> snd p < 600))
                              (points s)) streets)"

text \<open>
  The script as a whole, from the two responses of the service, the transformer, the
  shapes and the files as they are before the run. \<open>exit(1)\<close> comes before anything is
  written.
\<close>

definition rebuild_all ::
  "element list \<Rightarrow> element list \<Rightarrow> (point \<Rightarrow> point) \<Rightarrow> point list list \<Rightarrow> files
     \<Rightarrow> status \<times> files" where
  "rebuild_all illinois_result streets_result tr shapes fs =
     (case illinois_frame illinois_result of
        None \<Rightarrow> (Exited 1 ''Could not find Illinois Street!'', fs)
      | Some fr \<Rightarrow>
          (Completed,
           \<lparr>buildings_json = Some (rebuild_buildings fr tr shapes),
            streets_json = Some (rebuild_streets fr streets_result)\<rparr>))"

text \<open>The name of a way, as \<open>tags.get('name', '')\<close> reads it.\<close>

definition way_names :: "element list \<Rightarrow> string list" where
  "way_names elements =
     concat (map (\<lambda>el. case el of
                    Way i ns tags \<Rightarrow> [case tags ''name'' of None \<Rightarrow> [] | Some n \<Rightarrow> n]
                  | _ \<Rightarrow> []) elements)"

section \<open>Sample inputs\<close>

text \<open>Concrete inputs on which the theorems below are evaluated.\<close>

definition ring5 :: "point list" where
  "ring5 = [(0, 0), (4, 0), (4, 3), (2, 5), (0, 3)]"

definition square100 :: region where
  "square100 = \<lparr>min_x = - 100, max_x = 100, min_z = - 100, max_z = 100\<rparr>"

definition lot :: "point list" where
  "lot = [(- 89.9839, 38.52), (- 89.9838, 38.52), (- 89.9838, 38.5201), (- 89.9839, 38.5201)]"

definition no_files :: files where
  "no_files = \<lparr>buildings_json = None, streets_json = None\<rparr>"

definition nodes_only :: "element list" where
  "nodes_only = [Node 1 (- 89.98) 38.52, Node 2 (- 89.98) 38.521]"

definition main_street_response :: "element list" where
  "main_street_response =
     [Node 1 (- 89.98) 38.52, Node 2 (- 89.98) 38.521,
      Way 7 (Some [1, 2]) (map_of [(''name'', ''Main Street''), (''highway'', ''residential'')])]"

definition main_street :: street where
  "main_street =
     \<lparr>street_id = 1, name = ''Main Street'', highway_type = ''residential'',
      points = [(- 150, 0), (0, 0), (50, 0), (150, 0)], width = 6, street_color = ''#353545''\<rparr>"

definition side_street :: street where
  "side_street =
     \<lparr>street_id = 2, name = [], highway_type = ''service'',
      points = [(- 150, 0), (0, 0), (150, 0)], width = 4, street_color = ''#303040''\<rparr>"

definition far_street :: street where
  "far_street =
     \<lparr>street_id = 3, name = [], highway_type = ''service'',
      points = [(- 300, 0), (- 250, 10)], width = 4, street_color = ''#303040''\<rparr>"

definition block :: building where
  "block =
     \<lparr>bldg_id = 1, footprint = [(- 70, - 70), (70, - 70), (70, 70), (- 70, 70)],
      position = (0, 0, 0), size3 = (140, 25, 140), color = ''#74b9ff''\<rparr>"

lemmas frame_consts =
  downtown_frame_def CENTER_LAT_def CENTER_LON_def LAT_TO_METERS_def LON_TO_METERS_def

lemmas box_consts = MIN_LAT_def MAX_LAT_def MIN_LON_def MAX_LON_def

lemmas recenter_consts =
  FOUNTAIN_LAT_def FOUNTAIN_LON_def OLD_CENTER_LAT_def OLD_CENTER_LON_def
  LAT_TO_METERS_def LON_TO_METERS_def offset_x_def offset_z_def shift_x_def shift_z_def
  undo_x_def undo_z_def total_shift_x_def total_shift_z_def

lemmas street_consts = main_street_def side_street_def far_street_def block_def

section \<open>Rounding lemmas\<close>

lemma py_round_of_int [simp]: "py_round (of_int k) = k"
  by (simp add: py_round_def)

lemma py_round_lower: "\<lfloor>y\<rfloor> \<le> py_round y"
  by (simp add: py_round_def Let_def)

lemma py_round_upper: "py_round y \<le> \<lfloor>y\<rfloor> + 1"
  by (simp add: py_round_def Let_def)

lemma py_round_mono:
  assumes "x \<le> y"
  shows "py_round x \<le> py_round y"
proof (cases "\<lfloor>x\<rfloor> = \<lfloor>y\<rfloor>")
  case True
  with assms show ?thesis
    by (auto simp: py_round_def Let_def)
next
  case False
  from assms have "\<lfloor>x\<rfloor> \<le> \<lfloor>y\<rfloor>" by (rule floor_mono)
  with False have "\<lfloor>x\<rfloor> + 1 \<le> \<lfloor>y\<rfloor>" by simp
  with py_round_upper [of x] py_round_lower [of y] show ?thesis by linarith
qed

lemma round1_mono: "x \<le> y \<Longrightarrow> round1 x \<le> round1 y"
  by (simp add: round1_def py_round_mono divide_right_mono)

lemma round1_zero [simp]: "round1 0 = 0"
  by (simp add: round1_def py_round_def)

lemma round1_tenths: "round1 (of_int k / 10) = of_int k / 10"
  by (simp add: round1_def)

section \<open>Projection\<close>

text \<open>
  C1, as the code has it. For every point and frame, \<open>convert_to_local\<close> of
  \<open>extract_downtown.py\<close> returns exactly
  \<open>x = (lon - center_lon) * lon_to_meters\<close> and
  \<open>z = -(lat - center_lat) * lat_to_meters\<close>; \<open>convert_to_local\<close> of
  \<open>extract_streets.py\<close> and \<open>to_local\<close> of \<open>rebuild_all.py\<close> and
  \<open>fetch_landuse.py\<close> return these two values rounded to one decimal place;
  \<open>latlon_to_local\<close> returns as x the product of the longitude difference and
  \<open>111000 * cos(radians(center_lat))\<close>, rounded to one decimal place. With a positive
  latitude scale, moving north makes the exact z smaller and never makes a rounded z larger.
\<close>

theorem projection_formulas:
  "convert_to_local fr lon lat =
     ((lon - center_lon fr) * lon_to_meters fr, - (lat - center_lat fr) * lat_to_meters fr)
   \<and> convert_to_local_streets fr lon lat =
     (round1 ((lon - center_lon fr) * lon_to_meters fr),
      round1 (- (lat - center_lat fr) * lat_to_meters fr))
   \<and> to_local fr lon lat =
     (round1 ((lon - center_lon fr) * lon_to_meters fr),
      round1 (- (lat - center_lat fr) * lat_to_meters fr))
   \<and> fst (latlon_to_local lon lat c_lon c_lat) =
     round1 ((lon - c_lon) * (111000 * cos (radians c_lat)))
   \<and> (0 < lat_to_meters fr \<and> lat1 < lat2 \<longrightarrow>
        snd (convert_to_local fr lon lat2) < snd (convert_to_local fr lon lat1)
      \<and> snd (convert_to_local_streets fr lon lat2) \<le> snd (convert_to_local_streets fr lon lat1)
      \<and> snd (to_local fr lon lat2) \<le> snd (to_local fr lon lat1))"
proof -
  have mono: "- (lat2 - center_lat fr) * lat_to_meters fr < - (lat1 - center_lat fr) * lat_to_meters fr"
    if "0 < lat_to_meters fr" "lat1 < lat2"
    using that by (simp add: mult_strict_right_mono)
  have a: "convert_to_local fr lon lat =
     ((lon - center_lon fr) * lon_to_meters fr, - (lat - center_lat fr) * lat_to_meters fr)" for lat
    by (simp add: convert_to_local_def)
  have b: "convert_to_local_streets fr lon lat =
     (round1 ((lon - center_lon fr) * lon_to_meters fr),
      round1 (- (lat - center_lat fr) * lat_to_meters fr))" for lat
    by (simp add: convert_to_local_streets_def)
  have c: "to_local fr lon lat =
     (round1 ((lon - center_lon fr) * lon_to_meters fr),
      round1 (- (lat - center_lat fr) * lat_to_meters fr))" for lat
    by (simp add: to_local_def)
  have d: "fst (latlon_to_local lon lat c_lon c_lat) =
     round1 ((lon - c_lon) * (111000 * cos (radians c_lat)))"
    by (simp only: latlon_to_local_def Let_def fst_conv mult.assoc)
  have e: "snd (convert_to_local fr lon lat2) < snd (convert_to_local fr lon lat1)
      \<and> snd (convert_to_local_streets fr lon lat2) \<le> snd (convert_to_local_streets fr lon lat1)
      \<and> snd (to_local fr lon lat2) \<le> snd (to_local fr lon lat1)"
    if "0 < lat_to_meters fr \<and> lat1 < lat2"
    unfolding a b c snd_conv using mono that by (simp add: round1_mono less_imp_le)
  from a b c d e show ?thesis by blast
qed

text \<open>What \<open>latlon_to_local\<close> computes as z.\<close>

lemma latlon_to_local_z:
  "snd (latlon_to_local lon lat c_lon c_lat) = round1 ((lat - c_lat) * 111000)"
  by (simp add: latlon_to_local_def)

text \<open>The frame of \<open>extract_downtown.py\<close>, one thousandth of a degree further north.\<close>

theorem projection_formulas_witness:
  "(0 < lat_to_meters downtown_frame \<and> (38.52::real) < 38.521)
   \<and> snd (convert_to_local downtown_frame (- 89.9839) 38.521) < snd (convert_to_local downtown_frame (- 89.9839) 38.52)
   \<and> snd (to_local downtown_frame (- 89.9839) 38.521) \<le> snd (to_local downtown_frame (- 89.9839) 38.52)"
proof -
  have h: "0 < lat_to_meters downtown_frame \<and> (38.52::real) < 38.521"
    by (simp add: frame_consts)
  from projection_formulas [of downtown_frame "- 89.9839" "38.52" 0 0 "38.52" "38.521"] h
  show ?thesis by blast
qed

text \<open>
  C1 as stated fails twice. \<open>extract_streets.py\<close> returns 0.1 where the formula gives
  0.087, and \<open>latlon_to_local\<close> returns z = 111 for a point one thousandth of a degree
  north of its centre, where the formula gives -111: its z is not negated.
\<close>

theorem projection_counterexample:
  "fst (convert_to_local_streets downtown_frame (- 89.983899) 38.52) = 0.1
   \<and> (- 89.983899 - center_lon downtown_frame) * lon_to_meters downtown_frame = 0.087
   \<and> snd (latlon_to_local OVERTURE_CENTER_LON 38.518 OVERTURE_CENTER_LON OVERTURE_CENTER_LAT) = 111
   \<and> - (38.518 - OVERTURE_CENTER_LAT) * 111000 = - 111"
  by (simp add: convert_to_local_streets_def latlon_to_local_def frame_consts
      OVERTURE_CENTER_LAT_def OVERTURE_CENTER_LON_def round1_def py_round_def Let_def)

text \<open>
  C5. Every projection function maps the centre of its frame to (0, 0). With the frame of
  \<open>extract_downtown.py\<close> and \<open>extract_streets.py\<close> (centre 38.5200, -89.9839, factors
  111000 and 87000), (-89.9839, 38.5200) goes to (0, 0), (-89.9829, 38.5200) to (87, 0)
  and (-89.9839, 38.5210) to (0, -111), before and after rounding to one decimal place.
\<close>

theorem center_projects_to_origin:
  "convert_to_local fr (center_lon fr) (center_lat fr) = (0, 0)
   \<and> convert_to_local_streets fr (center_lon fr) (center_lat fr) = (0, 0)
   \<and> to_local fr (center_lon fr) (center_lat fr) = (0, 0)
   \<and> latlon_to_local c_lon c_lat c_lon c_lat = (0, 0)
   \<and> center_lat downtown_frame = 38.5200 \<and> center_lon downtown_frame = - 89.9839
   \<and> lat_to_meters downtown_frame = 111000 \<and> lon_to_meters downtown_frame = 87000
   \<and> convert_to_local downtown_frame (- 89.9839) 38.5200 = (0, 0)
   \<and> convert_to_local downtown_frame (- 89.9829) 38.5200 = (87, 0)
   \<and> convert_to_local downtown_frame (- 89.9839) 38.5210 = (0, - 111)
   \<and> convert_to_local_streets downtown_frame (- 89.9839) 38.5200 = (0, 0)
   \<and> convert_to_local_streets downtown_frame (- 89.9829) 38.5200 = (87, 0)
   \<and> convert_to_local_streets downtown_frame (- 89.9839) 38.5210 = (0, - 111)"
  by (simp add: convert_to_local_def convert_to_local_streets_def to_local_def
      latlon_to_local_def frame_consts round1_def py_round_def Let_def)

section \<open>The region test\<close>

text \<open>
  C8. The region test holds exactly when \<open>min_x \<le> x \<le> max_x\<close> and
  \<open>min_z \<le> z \<le> max_z\<close>. In a region whose minima do not exceed its maxima, a point
  on any of the four boundary lines, its other coordinate in range, is inside, and so are
  the four corners.
\<close>

theorem in_bounds_inclusive:
  "(in_bounds r (x, z) \<longleftrightarrow> min_x r \<le> x \<and> x \<le> max_x r \<and> min_z r \<le> z \<and> z \<le> max_z r)
   \<and> (min_x r \<le> max_x r \<and> min_z r \<le> z \<and> z \<le> max_z r \<longrightarrow>
        in_bounds r (min_x r, z) \<and> in_bounds r (max_x r, z))
   \<and> (min_z r \<le> max_z r \<and> min_x r \<le> x \<and> x \<le> max_x r \<longrightarrow>
        in_bounds r (x, min_z r) \<and> in_bounds r (x, max_z r))
   \<and> (min_x r \<le> max_x r \<and> min_z r \<le> max_z r \<longrightarrow>
        in_bounds r (min_x r, min_z r) \<and> in_bounds r (min_x r, max_z r)
        \<and> in_bounds r (max_x r, min_z r) \<and> in_bounds r (max_x r, max_z r))"
  by (auto simp: in_bounds_def)

theorem in_bounds_inclusive_witness:
  "in_bounds \<lparr>min_x = - 100, max_x = 100, min_z = - 100, max_z = 100\<rparr> (- 100, 0)
   \<and> in_bounds \<lparr>min_x = - 100, max_x = 100, min_z = - 100, max_z = 100\<rparr> (100, 0)
   \<and> in_bounds \<lparr>min_x = - 100, max_x = 100, min_z = - 100, max_z = 100\<rparr> (0, - 100)
   \<and> in_bounds \<lparr>min_x = - 100, max_x = 100, min_z = - 100, max_z = 100\<rparr> (0, 100)
   \<and> \<not> in_bounds \<lparr>min_x = - 100, max_x = 100, min_z = - 100, max_z = 100\<rparr> (100.1, 0)"
  using in_bounds_inclusive [of "\<lparr>min_x = - 100, max_x = 100, min_z = - 100, max_z = 100\<rparr>" 0 0]
    in_bounds_inclusive [of "\<lparr>min_x = - 100, max_x = 100, min_z = - 100, max_z = 100\<rparr>" "100.1" 0]
  by simp

text \<open>
  The regions the street scripts build from the buildings are of that kind whenever the
  margin is not negative.
\<close>

lemma fold_min_le: "fold min xs (a::real) \<le> a"
proof (induction xs arbitrary: a)
  case Nil
  show ?case by simp
next
  case (Cons x xs)
  have "fold min xs (min x a) \<le> min x a" by (rule Cons.IH)
  also have "\<dots> \<le> a" by simp
  finally show ?case by simp
qed

lemma fold_max_ge: "(a::real) \<le> fold max xs a"
proof (induction xs arbitrary: a)
  case Nil
  show ?case by simp
next
  case (Cons x xs)
  have "a \<le> max x a" by simp
  also have "\<dots> \<le> fold max xs (max x a)" by (rule Cons.IH)
  finally show ?case by simp
qed

lemma py_min_le_py_max: "xs \<noteq> [] \<Longrightarrow> py_min xs \<le> py_max xs"
  by (cases xs) (auto intro: order_trans [OF fold_min_le fold_max_ge])

lemma building_region_ordered:
  assumes "building_region margin buildings = Some r" and "0 \<le> margin"
  shows "min_x r \<le> max_x r \<and> min_z r \<le> max_z r"
proof -
  let ?xs = "concat (map (\<lambda>b. map fst (footprint b)) buildings)"
  let ?zs = "concat (map (\<lambda>b. map snd (footprint b)) buildings)"
  from assms(1) have ne: "?xs \<noteq> []"
    by (auto simp: building_region_def Let_def split: if_splits)
  then have "?zs \<noteq> []" by auto
  with ne have "py_min ?xs \<le> py_max ?xs" "py_min ?zs \<le> py_max ?zs"
    by (simp_all add: py_min_le_py_max)
  with assms show ?thesis
    by (auto simp: building_region_def Let_def split: if_splits)
qed

section \<open>Height estimate\<close>

text \<open>
  C2 as stated fails: the rule falls from 9.8 at area 48 to 9.67 at area 50, and the value
  at area 100 is 34/3, not 11.3.
\<close>

theorem estimate_height_counterexample:
  "(0::real) \<le> 48 \<and> (48::real) \<le> 50 \<and> estimate_height 50 < estimate_height 48
   \<and> estimate_height 100 \<noteq> 11.3"
  by (simp add: estimate_height_def)

text \<open>
  C2, as the code has it. For areas \<open>a \<le> b\<close> the estimate at \<open>a\<close> is at most the
  estimate at \<open>b\<close> except when \<open>a < 50 \<le> b < 3a - 90\<close>, that is across the first
  breakpoint; in particular it is monotone on areas below 50 and on areas from 50 up. The
  values at 40, 300 and 600 are 9, 18 and 25.5; the value at 100 is 34/3, which the
  scripts write as 11.3 after rounding to one decimal place.
\<close>

theorem estimate_height_monotone:
  "(a \<le> b \<longrightarrow>
      (estimate_height a \<le> estimate_height b \<longleftrightarrow> \<not> (a < 50 \<and> 50 \<le> b \<and> b < 3 * a - 90)))
   \<and> estimate_height 40 = 9
   \<and> estimate_height 100 = 34 / 3 \<and> round1 (estimate_height 100) = 11.3
   \<and> estimate_height 300 = 18
   \<and> estimate_height 600 = 25.5"
proof -
  have "estimate_height a \<le> estimate_height b \<longleftrightarrow> \<not> (a < 50 \<and> 50 \<le> b \<and> b < 3 * a - 90)"
    if "a \<le> b"
    using that by (auto simp: estimate_height_def min_def split: if_splits)
  moreover have "estimate_height 40 = 9" "estimate_height 100 = 34 / 3"
    "estimate_height 300 = 18" "estimate_height 600 = 25.5"
    by (simp_all add: estimate_height_def)
  moreover have "round1 (estimate_height 100) = 11.3"
    by (simp add: estimate_height_def round1_def py_round_def Let_def)
  ultimately show ?thesis by blast
qed

theorem estimate_height_monotone_witness:
  "estimate_height 10 \<le> estimate_height 60 \<and> \<not> estimate_height 49 \<le> estimate_height 55"
  using estimate_height_monotone [of 10 60] estimate_height_monotone [of 49 55]
  by simp

section \<open>Polygon simplification\<close>



lemma range_step_one: "range_step n (Suc 0) = [0..<n]"
  by (simp add: range_step_def)




text \<open>
  The inline decimation of \<open>rebuild_all.py\<close> also leaves a list of fewer than twenty
  points unchanged, and it does not close the ring.
\<close>

lemma decimate_short:
  assumes "length pts < 20"
  shows "decimate pts = pts"
  using assms by (simp add: decimate_def range_step_one map_nth)

lemma decimate_open: "decimate ring5 = ring5 \<and> hd (decimate ring5) \<noteq> last (decimate ring5)"
  by (simp add: decimate_short ring5_def)

section \<open>Filtering streets\<close>

lemma clip_loop_acc:
  "clip_loop r streets acc =
     acc @ map (\<lambda>s. s\<lparr>points := filter (in_bounds r) (points s)\<rparr>)
             (filter (\<lambda>s. 2 \<le> length (filter (in_bounds r) (points s))) streets)"
  by (induction streets arbitrary: acc) (simp_all add: Let_def)

lemma keep_loop_acc:
  "keep_loop r streets acc = acc @ filter (\<lambda>s. list_ex (in_bounds r) (points s)) streets"
  by (induction streets arbitrary: acc) simp_all

text \<open>
  C4. The clipping loop of \<open>finalize_streets.py\<close> returns, in input order, the streets
  with at least two points in the region, each with its points replaced by those in the
  region; so every surviving street has at least two points, all of them in the region,
  and a street with fewer is dropped. In the region from -100 to 100 on both axes the
  polyline (-150, 0), (0, 0), (150, 0) keeps the one point (0, 0) and is dropped. The loop
  runs over streets only; no script clips polygons.
\<close>

theorem clip_drops_short:
  "clip_loop r streets [] =
     map (\<lambda>s. s\<lparr>points := filter (in_bounds r) (points s)\<rparr>)
       (filter (\<lambda>s. 2 \<le> length (filter (in_bounds r) (points s))) streets)
   \<and> (\<forall>s \<in> set (clip_loop r streets []).
        2 \<le> length (points s) \<and> (\<forall>pt \<in> set (points s). in_bounds r pt))
   \<and> (finalize_streets streets buildings = Some out \<longrightarrow>
        (\<forall>s \<in> set out. 2 \<le> length (points s)))
   \<and> filter (in_bounds square100) [(- 150, 0), (0, 0), (150, 0)] = [(0, 0)]
   \<and> clip_loop square100 [s\<lparr>points := [(- 150, 0), (0, 0), (150, 0)]\<rparr>] [] = []"
proof -
  have a: "clip_loop r streets [] =
     map (\<lambda>s. s\<lparr>points := filter (in_bounds r) (points s)\<rparr>)
       (filter (\<lambda>s. 2 \<le> length (filter (in_bounds r) (points s))) streets)" for r streets
    by (simp add: clip_loop_acc)
  have b: "\<forall>s \<in> set (clip_loop r streets []).
        2 \<le> length (points s) \<and> (\<forall>pt \<in> set (points s). in_bounds r pt)" for r streets
    by (auto simp: a)
  have c: "\<forall>s \<in> set out. 2 \<le> length (points s)"
    if "finalize_streets streets buildings = Some out"
    using that b by (auto simp: finalize_streets_def split: option.splits)
  have d: "filter (in_bounds square100) [(- 150, 0), (0, 0), (150, 0)] = [(0, 0)]"
    by (simp add: in_bounds_def square100_def)
  have e: "clip_loop square100 [s\<lparr>points := [(- 150, 0), (0, 0), (150, 0)]\<rparr>] [] = []"
    by (simp add: Let_def in_bounds_def square100_def)
  from a b c d e show ?thesis by blast
qed

lemma region_block: "building_region 30 [block] = Some square100"
  by (simp add: building_region_def block_def square100_def)

theorem clip_drops_short_witness:
  "finalize_streets [main_street, side_street] [block] =
     Some [main_street\<lparr>points := [(0, 0), (50, 0)]\<rparr>]
   \<and> clip_loop square100 [main_street, side_street] [] = [main_street\<lparr>points := [(0, 0), (50, 0)]\<rparr>]
   \<and> 2 \<le> length (points (main_street\<lparr>points := [(0, 0), (50, 0)]\<rparr>))
   \<and> in_bounds square100 (0, 0) \<and> in_bounds square100 (50, 0)"
proof -
  have a: "clip_loop square100 [main_street, side_street] [] =
      [main_street\<lparr>points := [(0, 0), (50, 0)]\<rparr>]"
    by (simp add: street_consts in_bounds_def square100_def Let_def)
  then have b: "finalize_streets [main_street, side_street] [block] =
     Some [main_street\<lparr>points := [(0, 0), (50, 0)]\<rparr>]"
    by (simp add: finalize_streets_def region_block)
  have "\<forall>s \<in> set (clip_loop square100 [main_street, side_street] []).
        2 \<le> length (points s) \<and> (\<forall>pt \<in> set (points s). in_bounds square100 pt)"
    using clip_drops_short [where r = square100 and streets = "[main_street, side_street]"]
    by blast
  then have c: "2 \<le> length (points (main_street\<lparr>points := [(0, 0), (50, 0)]\<rparr>))
      \<and> in_bounds square100 (0, 0) \<and> in_bounds square100 (50, 0)"
    unfolding a by simp
  from a b c show ?thesis by blast
qed

lemma fix_alignment_filter:
  assumes "fix_alignment streets buildings = Some out"
  shows "\<exists>r' f. out = filter (\<lambda>s. \<exists>pt \<in> set (points s). in_bounds r' pt)
                   (map (\<lambda>s. s\<lparr>points := map f (points s)\<rparr>) streets)"
proof -
  let ?bx = "concat (map (\<lambda>b. map fst (footprint b)) buildings)"
  let ?bz = "concat (map (\<lambda>b. map snd (footprint b)) buildings)"
  let ?sx = "concat (map (\<lambda>s. map fst (points s)) streets)"
  let ?sz = "concat (map (\<lambda>s. map snd (points s)) streets)"
  let ?ox = "(py_min ?bx + py_max ?bx) / 2 - (py_min ?sx + py_max ?sx) / 2"
  let ?oz = "(py_min ?bz + py_max ?bz) / 2 - (py_min ?sz + py_max ?sz) / 2"
  let ?r = "\<lparr>min_x = py_min ?bx - 50, max_x = py_max ?bx + 50,
             min_z = py_min ?bz - 50, max_z = py_max ?bz + 50\<rparr>"
  let ?f = "\<lambda>pt. (round1 (fst pt + ?ox), round1 (snd pt + ?oz))"
  let ?K = "keep_loop ?r (map (\<lambda>s. s\<lparr>points := map ?f (points s)\<rparr>) streets) []"
  have eq: "fix_alignment streets buildings =
      (if ?bx = [] \<or> ?sx = [] then None
       else if concat (map (\<lambda>s. map fst (points s)) ?K) = [] then None else Some ?K)"
    unfolding fix_alignment_def Let_def ..
  have "out = ?K"
  proof (cases "?bx = [] \<or> ?sx = []")
    case True
    then have "fix_alignment streets buildings = None" unfolding eq by (rule if_P)
    with assms show ?thesis by simp
  next
    case False
    then have *: "fix_alignment streets buildings =
        (if concat (map (\<lambda>s. map fst (points s)) ?K) = [] then None else Some ?K)"
      unfolding eq by (rule if_not_P)
    show ?thesis
    proof (cases "concat (map (\<lambda>s. map fst (points s)) ?K) = []")
      case True
      then have "fix_alignment streets buildings = None" unfolding * by (rule if_P)
      with assms show ?thesis by simp
    next
      case False
      then have "fix_alignment streets buildings = Some ?K" unfolding * by (rule if_not_P)
      with assms show ?thesis by simp
    qed
  qed
  then have "out = filter (\<lambda>s. \<exists>pt \<in> set (points s). in_bounds ?r pt)
                   (map (\<lambda>s. s\<lparr>points := map ?f (points s)\<rparr>) streets)"
    by (simp only: keep_loop_acc list_ex_iff append_Nil)
  then show ?thesis by blast
qed

text \<open>
  C6. The loop of \<open>fix_alignment.py\<close> and \<open>align_streets.py\<close> returns exactly the
  streets with at least one point in the region, each as it was given (all its points, in
  their order), in the order of the input. What each script writes is that filter of the
  streets it has shifted just before.
\<close>

theorem keep_any_stable:
  "keep_loop r streets [] = filter (\<lambda>s. \<exists>pt \<in> set (points s). in_bounds r pt) streets
   \<and> (s \<in> set (keep_loop r streets []) \<longleftrightarrow>
        s \<in> set streets \<and> (\<exists>pt \<in> set (points s). in_bounds r pt))
   \<and> subseq (keep_loop r streets []) streets
   \<and> (align_streets streets buildings = Some out \<longrightarrow>
        (\<exists>r'. building_region 100 buildings = Some r' \<and>
           out = filter (\<lambda>s. \<exists>pt \<in> set (points s). in_bounds r' pt)
                   (map (\<lambda>s. s\<lparr>points := map (\<lambda>pt. (round1 (fst pt + OFFSET_X), round1 (snd pt)))
                                             (points s)\<rparr>) streets)))
   \<and> (fix_alignment streets buildings = Some out' \<longrightarrow>
        (\<exists>r' f. out' = filter (\<lambda>s. \<exists>pt \<in> set (points s). in_bounds r' pt)
                     (map (\<lambda>s. s\<lparr>points := map f (points s)\<rparr>) streets)))"
proof -
  have a: "keep_loop r streets [] = filter (\<lambda>s. \<exists>pt \<in> set (points s). in_bounds r pt) streets"
    for r streets
    by (simp add: keep_loop_acc list_ex_iff)
  have b: "s \<in> set (keep_loop r streets []) \<longleftrightarrow>
        s \<in> set streets \<and> (\<exists>pt \<in> set (points s). in_bounds r pt)"
    by (simp add: a)
  have c: "subseq (keep_loop r streets []) streets"
    by (simp add: a)
  have d: "\<exists>r'. building_region 100 buildings = Some r' \<and>
           out = filter (\<lambda>s. \<exists>pt \<in> set (points s). in_bounds r' pt)
                   (map (\<lambda>s. s\<lparr>points := map (\<lambda>pt. (round1 (fst pt + OFFSET_X), round1 (snd pt)))
                                             (points s)\<rparr>) streets)"
    if "align_streets streets buildings = Some out"
    using that by (auto simp: align_streets_def a split: option.splits)
  have e: "\<exists>r' f. out' = filter (\<lambda>s. \<exists>pt \<in> set (points s). in_bounds r' pt)
                     (map (\<lambda>s. s\<lparr>points := map f (points s)\<rparr>) streets)"
    if "fix_alignment streets buildings = Some out'"
    using that by (rule fix_alignment_filter)
  from a b c d e show ?thesis by blast
qed

text \<open>
  Two streets and one building: the street far to the west is dropped by both scripts and
  the other is kept with all four of its points, also those outside the region.
\<close>

lemma fix_alignment_sample:
  "fix_alignment [far_street, main_street] [block] =
     Some [main_street\<lparr>points := [(- 75, - 5), (75, - 5), (125, - 5), (225, - 5)]\<rparr>]"
proof -
  have bx: "concat (map (\<lambda>b. map fst (footprint b)) [block]) = [- 70, 70, 70, - 70]"
    and bz: "concat (map (\<lambda>b. map snd (footprint b)) [block]) = [- 70, - 70, 70, 70]"
    and sx: "concat (map (\<lambda>s. map fst (points s)) [far_street, main_street]) =
             [- 300, - 250, - 150, 0, 50, 150]"
    and sz: "concat (map (\<lambda>s. map snd (points s)) [far_street, main_street]) =
             [0, 10, 0, 0, 0, 0]"
    by (simp_all add: street_consts)
  show ?thesis
    unfolding fix_alignment_def bx bz sx sz
    by (simp add: Let_def street_consts in_bounds_def round1_def py_round_def)
qed

lemma align_streets_sample:
  "align_streets [far_street, main_street] [block] =
     Some [main_street\<lparr>points := [(- 123, 0), (27, 0), (77, 0), (177, 0)]\<rparr>]"
  by (simp add: align_streets_def building_region_def OFFSET_X_def street_consts in_bounds_def
      round1_def py_round_def Let_def)

theorem keep_any_stable_witness:
  "keep_loop square100 [far_street, main_street] [] = [main_street]
   \<and> main_street \<in> set (keep_loop square100 [far_street, main_street] [])
   \<and> far_street \<notin> set (keep_loop square100 [far_street, main_street] [])
   \<and> (\<exists>pt \<in> set (points main_street). in_bounds square100 pt)
   \<and> align_streets [far_street, main_street] [block] =
       Some [main_street\<lparr>points := [(- 123, 0), (27, 0), (77, 0), (177, 0)]\<rparr>]
   \<and> fix_alignment [far_street, main_street] [block] =
       Some [main_street\<lparr>points := [(- 75, - 5), (75, - 5), (125, - 5), (225, - 5)]\<rparr>]"
proof -
  have a: "keep_loop square100 [far_street, main_street] [] = [main_street]"
    by (simp add: street_consts in_bounds_def square100_def)
  have c: "\<exists>pt \<in> set (points main_street). in_bounds square100 pt"
    by (simp add: street_consts in_bounds_def square100_def)
  have d: "\<not> (\<exists>pt \<in> set (points far_street). in_bounds square100 pt)"
    by (simp add: street_consts in_bounds_def square100_def)
  from a c d align_streets_sample fix_alignment_sample
    keep_any_stable [where r = square100 and streets = "[far_street, main_street]"
      and s = main_street]
    keep_any_stable [where r = square100 and streets = "[far_street, main_street]"
      and s = far_street]
  show ?thesis by simp
qed

section \<open>The anchor street\<close>

lemma way_names_empty_coords:
  assumes "way_names res = []"
  shows "illinois_coords res = []"
proof -
  from assms have "\<forall>el \<in> set res. \<forall>i ns tags. el \<noteq> Way i ns tags"
    by (auto simp: way_names_def)
  then show ?thesis
    by (auto simp: illinois_coords_def split: element.splits)
qed

lemma anchor_in_query_name:
  "contains (lower ''Illinois Street'') (lower ''North Illinois Street'')"
  by (simp add: lower_def lower_char_def)

text \<open>
  C7, as the code has it. \<open>rebuild_all.py\<close> prints that it could not find Illinois
  Street and exits with status 1, leaving both files as they were, exactly when the
  response to its anchor query gives no coordinates of way nodes; otherwise it runs to
  completion. It does not look at names: the name \<open>North Illinois Street\<close> is part of
  the query. For a response that holds only ways of that name, if no way name contains
  \<open>illinois street\<close> in any letter case, the run ends with status 1.
\<close>

theorem rebuild_all_not_found:
  "(illinois_coords res = [] \<longrightarrow>
      rebuild_all res sres tr shapes fs = (Exited 1 ''Could not find Illinois Street!'', fs))
   \<and> (illinois_coords res \<noteq> [] \<longrightarrow> fst (rebuild_all res sres tr shapes fs) = Completed)
   \<and> ((\<forall>n \<in> set (way_names res). n = ''North Illinois Street'')
        \<and> \<not> list_ex (\<lambda>n. contains (lower ''Illinois Street'') (lower n)) (way_names res) \<longrightarrow>
      rebuild_all res sres tr shapes fs = (Exited 1 ''Could not find Illinois Street!'', fs))"
proof -
  have a: "rebuild_all res sres tr shapes fs = (Exited 1 ''Could not find Illinois Street!'', fs)"
    if "illinois_coords res = []"
    using that by (simp add: rebuild_all_def illinois_frame_def)
  have b: "fst (rebuild_all res sres tr shapes fs) = Completed"
    if "illinois_coords res \<noteq> []"
    using that by (simp add: rebuild_all_def illinois_frame_def Let_def)
  have c: "illinois_coords res = []"
    if h: "(\<forall>n \<in> set (way_names res). n = ''North Illinois Street'')
        \<and> \<not> list_ex (\<lambda>n. contains (lower ''Illinois Street'') (lower n)) (way_names res)"
  proof -
    have "way_names res = []"
    proof (cases "way_names res")
      case Nil
      then show ?thesis .
    next
      case (Cons n ns)
      with h have "n = ''North Illinois Street''" by simp
      with anchor_in_query_name have "contains (lower ''Illinois Street'') (lower n)" by simp
      with h Cons show ?thesis by (simp add: list_ex_iff)
    qed
    then show ?thesis by (rule way_names_empty_coords)
  qed
  from a b c show ?thesis by blast
qed

lemma illinois_coords_main:
  "illinois_coords main_street_response = [(- 89.98, 38.52), (- 89.98, 38.521)]"
  by (simp add: illinois_coords_def main_street_response_def nodes_of_def List.map_filter_simps)

theorem rebuild_all_not_found_witness:
  "illinois_coords nodes_only = []
   \<and> way_names nodes_only = []
   \<and> \<not> list_ex (\<lambda>n. contains (lower ''Illinois Street'') (lower n)) (way_names nodes_only)
   \<and> rebuild_all nodes_only [] (\<lambda>p. p) [] no_files = (Exited 1 ''Could not find Illinois Street!'', no_files)
   \<and> illinois_coords main_street_response \<noteq> []
   \<and> fst (rebuild_all main_street_response [] (\<lambda>p. p) [] no_files) = Completed"
proof -
  have a: "illinois_coords nodes_only = []"
    by (simp add: illinois_coords_def nodes_only_def)
  have b: "way_names nodes_only = []"
    by (simp add: way_names_def nodes_only_def)
  have c: "illinois_coords main_street_response \<noteq> []"
    by (simp add: illinois_coords_main)
  from a b c rebuild_all_not_found [of nodes_only "[]" "\<lambda>p. p" "[]" no_files]
    rebuild_all_not_found [of main_street_response "[]" "\<lambda>p. p" "[]" no_files]
  show ?thesis by simp
qed

text \<open>
  C7 as stated fails. A response whose only way is named Main Street has no name with
  \<open>illinois street\<close> in it, and \<open>rebuild_all.py\<close> derives a frame from it and writes
  both files. \<open>recenter_data.py\<close>, the other script that looks for the name, writes both
  files before it looks and reports nothing when no street matches.
\<close>

theorem anchor_not_found_counterexample:
  "way_names main_street_response = [''Main Street'']
   \<and> \<not> contains (lower ''Illinois Street'') (lower ''Main Street'')
   \<and> rebuild_all main_street_response [] (\<lambda>p. p) [] no_files =
       (Completed, \<lparr>buildings_json = Some [], streets_json = Some []\<rparr>)
   \<and> recenter_data [] [] = (\<lparr>buildings_json = Some [], streets_json = Some []\<rparr>, None)"
proof -
  have a: "way_names main_street_response = [''Main Street'']"
    by (simp add: way_names_def main_street_response_def)
  have b: "\<not> contains (lower ''Illinois Street'') (lower ''Main Street'')"
    by (simp add: lower_def lower_char_def)
  have "illinois_frame main_street_response \<noteq> None"
    by (simp add: illinois_frame_def illinois_coords_main Let_def)
  then have c: "rebuild_all main_street_response [] (\<lambda>p. p) [] no_files =
       (Completed, \<lparr>buildings_json = Some [], streets_json = Some []\<rparr>)"
    by (auto simp: rebuild_all_def rebuild_buildings_def rebuild_streets_def
        finish_buildings_def List.map_filter_simps)
  have d: "recenter_data [] [] = (\<lparr>buildings_json = Some [], streets_json = Some []\<rparr>, None)"
    by (simp add: recenter_data_def)
  from a b c d show ?thesis by simp
qed

lemma recenter_data_silent:
  assumes "\<not> list_ex (\<lambda>s. contains ''illinois'' (lower (name s))) streets"
  shows "snd (recenter_data buildings streets) = None"
    and "buildings_json (fst (recenter_data buildings streets)) \<noteq> None"
    and "streets_json (fst (recenter_data buildings streets)) \<noteq> None"
proof -
  have "find (\<lambda>s. contains ''illinois'' (lower (name s)))
          (map (\<lambda>s. s\<lparr>points := map recenter_data_point (points s)\<rparr>) streets) = None"
    using assms by (simp add: find_None_iff list_ex_iff)
  then show "snd (recenter_data buildings streets) = None"
    by (simp add: recenter_data_def Let_def)
  show "buildings_json (fst (recenter_data buildings streets)) \<noteq> None"
    "streets_json (fst (recenter_data buildings streets)) \<noteq> None"
    by (simp_all add: recenter_data_def Let_def)
qed

section \<open>Recentring\<close>

lemma total_shift_values: "total_shift_x = - 0.039" "total_shift_z = - 0.023"
  by (simp_all add: recenter_consts)

lemma py_round_near:
  assumes "\<bar>e\<bar> < 1 / 2"
  shows "py_round (of_int k + e) = k"
proof (cases "0 \<le> e")
  case True
  with assms have "\<lfloor>of_int k + e\<rfloor> = k" by (simp add: floor_unique)
  with assms True show ?thesis by (simp add: py_round_def Let_def)
next
  case False
  with assms have "\<lfloor>of_int k + e\<rfloor> = k - 1" by (intro floor_unique) auto
  with assms False show ?thesis by (auto simp add: py_round_def Let_def)
qed

text \<open>
  C9. Subtracting \<open>offset_x\<close> and \<open>offset_z\<close>, as \<open>recenter_data.py\<close> does, is
  adding \<open>shift_x\<close> and \<open>shift_z\<close>, the shift \<open>recenter_correct.py\<close> calls correct:
  the two scripts apply the same translation. The composite shift of
  \<open>recenter_correct.py\<close> is -0.039 in x and -0.023 in z, below 0.05 in size on both
  axes, so the translation moves a coordinate by less than 0.05. After the rounding the
  script applies, a coordinate that is a whole number of tenths, as is every coordinate
  \<open>recenter_data.py\<close> has written, is left where it was.
\<close>

theorem recenter_same_translation:
  "x - offset_x = x + shift_x \<and> z - offset_z = z + shift_z
   \<and> recenter_data_point pt = (round1 (fst pt + shift_x), round1 (snd pt + shift_z))
   \<and> total_shift_x = - 0.039 \<and> total_shift_z = - 0.023
   \<and> \<bar>total_shift_x\<bar> < 0.05 \<and> \<bar>total_shift_z\<bar> < 0.05
   \<and> \<bar>(x + total_shift_x) - x\<bar> < 0.05 \<and> \<bar>(z + total_shift_z) - z\<bar> < 0.05
   \<and> recenter_correct_point (of_int i / 10, of_int j / 10) = (of_int i / 10, of_int j / 10)
   \<and> recenter_correct_point (recenter_data_point pt) = recenter_data_point pt"
proof -
  have a: "x - offset_x = x + shift_x" "z - offset_z = z + shift_z" for x z
    by (simp_all add: recenter_consts)
  have b: "round1 (of_int i / 10 + total_shift_x) = of_int i / 10" for i
    using py_round_near [of "- 0.39" i]
    by (simp add: round1_def total_shift_values(1) algebra_simps)
  have c: "round1 (of_int j / 10 + total_shift_z) = of_int j / 10" for j
    using py_round_near [of "- 0.23" j]
    by (simp add: round1_def total_shift_values(2) algebra_simps)
  have d: "recenter_data_point pt = (round1 (fst pt + shift_x), round1 (snd pt + shift_z))"
    by (simp add: recenter_data_point_def a)
  have e: "\<bar>total_shift_x\<bar> < 0.05" "\<bar>total_shift_z\<bar> < 0.05"
    by (simp_all add: total_shift_values)
  have f: "recenter_correct_point (of_int i / 10, of_int j / 10) = (of_int i / 10, of_int j / 10)"
    for i j
    unfolding recenter_correct_point_def fst_conv snd_conv b c ..
  have g: "recenter_correct_point (recenter_data_point pt) = recenter_data_point pt"
    unfolding recenter_data_point_def round1_def by (rule f)
  from a d e f g total_shift_values show ?thesis by simp
qed

section \<open>Emitted buildings\<close>

lemma round1_three: "3 \<le> w \<Longrightarrow> 3 \<le> round1 w"
  using round1_mono [of 3 w] round1_tenths [of 30] by simp

lemma in_set_map_filter:
  "y \<in> set (List.map_filter f xs) \<longleftrightarrow> (\<exists>x \<in> set xs. f x = Some y)"
  by (induction xs) (auto simp: List.map_filter_simps split: option.splits)

lemma downtown_shape_size:
  assumes "downtown_shape tr pts = Some b"
  shows "3 \<le> fst (size3 b) \<and> 3 \<le> snd (snd (size3 b))"
  using assms
  by (auto simp: downtown_shape_def Let_def round1_three not_less
      split: if_splits prod.splits)

lemma rebuild_shape_size:
  assumes "rebuild_shape fr tr pts = Some b"
  shows "3 \<le> fst (size3 b) \<and> 3 \<le> snd (snd (size3 b))"
  using assms
  by (auto simp: rebuild_shape_def Let_def round1_three not_less
      split: if_splits prod.splits)

lemma finish_buildings_size:
  assumes "b \<in> set (finish_buildings bs)"
  shows "\<exists>b0 \<in> set bs. size3 b = size3 b0 \<and> footprint b = footprint b0 \<and> position b = position b0"
proof -
  from assms obtain i where i: "i < length bs"
    and b: "b = (sort_key dist2 bs ! i)\<lparr>color := colors ! (i mod length colors), bldg_id := Suc i\<rparr>"
    by (auto simp: finish_buildings_def in_set_enumerate_eq)
  from i have "sort_key dist2 bs ! i \<in> set (sort_key dist2 bs)"
    by (intro nth_mem) simp
  then have "sort_key dist2 bs ! i \<in> set bs" by simp
  with b show ?thesis by auto
qed

text \<open>
  C10. Every building \<open>extract_downtown.py\<close> emits and every building step 3 of
  \<open>rebuild_all.py\<close> emits has \<open>size[0] \<ge> 3\<close> and \<open>size[2] \<ge> 3\<close>: a shape whose
  bounding box is less than 3 wide or less than 3 deep is skipped, and rounding a number
  that is at least 3 to one decimal place gives a number that is at least 3.
\<close>

theorem emitted_buildings_min_size:
  "(\<forall>b \<in> set (extract_downtown tr shapes). 3 \<le> fst (size3 b) \<and> 3 \<le> snd (snd (size3 b)))
   \<and> (\<forall>b \<in> set (rebuild_buildings fr tr shapes). 3 \<le> fst (size3 b) \<and> 3 \<le> snd (snd (size3 b)))"
proof -
  have a: "3 \<le> fst (size3 b) \<and> 3 \<le> snd (snd (size3 b))"
    if "b \<in> set (extract_downtown tr shapes)" for b
  proof -
    from that obtain b0 where "b0 \<in> set (List.map_filter (downtown_shape tr) shapes)"
      and "size3 b = size3 b0"
      unfolding extract_downtown_def using finish_buildings_size by blast
    then show ?thesis
      using downtown_shape_size by (auto simp: in_set_map_filter)
  qed
  have b: "3 \<le> fst (size3 b) \<and> 3 \<le> snd (snd (size3 b))"
    if "b \<in> set (rebuild_buildings fr tr shapes)" for b
  proof -
    from that obtain b0 where "b0 \<in> set (List.map_filter (rebuild_shape fr tr) shapes)"
      and "size3 b = size3 b0"
      unfolding rebuild_buildings_def using finish_buildings_size by blast
    then show ?thesis
      using rebuild_shape_size by (auto simp: in_set_map_filter)
  qed
  from a b show ?thesis by blast
qed

text \<open>
  A lot of 8.7 by 11.1 metres at the centre is emitted by both scripts; a shape of the
  same width and 1.1 metres deep is not.
\<close>

lemma downtown_shape_lot:
  "downtown_shape (\<lambda>p. p) lot =
     Some \<lparr>bldg_id = 0, footprint = [(0, 0), (8.7, 0), (8.7, - 11.1), (0, - 11.1)],
           position = (4.4, 0, - 5.6), size3 = (8.7, 11.2, 11.1), color = []\<rparr>"
  by (simp add: downtown_shape_def lot_def box_consts frame_consts convert_to_local_def
      simplify_polygon_def estimate_height_def round1_def py_round_def Let_def)

lemma rebuild_shape_lot:
  "rebuild_shape downtown_frame (\<lambda>p. p) lot =
     Some \<lparr>bldg_id = 0, footprint = [(0, 0), (8.7, 0), (8.7, - 11.1), (0, - 11.1)],
           position = (4.4, 0, - 5.6), size3 = (8.7, 11.2, 11.1), color = []\<rparr>"
  by (simp add: rebuild_shape_def lot_def box_consts frame_consts to_local_def
      decimate_short estimate_height_def round1_def py_round_def Let_def)

lemma downtown_shape_thin:
  "downtown_shape (\<lambda>p. p)
     [(- 89.9839, 38.52), (- 89.9838, 38.52), (- 89.9838, 38.52001), (- 89.9839, 38.52001)] = None"
  by (simp add: downtown_shape_def box_consts frame_consts convert_to_local_def
      simplify_polygon_def round1_def py_round_def Let_def)

theorem emitted_buildings_min_size_witness:
  "extract_downtown (\<lambda>p. p) [lot] =
     [\<lparr>bldg_id = 1, footprint = [(0, 0), (8.7, 0), (8.7, - 11.1), (0, - 11.1)],
       position = (4.4, 0, - 5.6), size3 = (8.7, 11.2, 11.1), color = ''#74b9ff''\<rparr>]
   \<and> rebuild_buildings downtown_frame (\<lambda>p. p) [lot] =
     [\<lparr>bldg_id = 1, footprint = [(0, 0), (8.7, 0), (8.7, - 11.1), (0, - 11.1)],
       position = (4.4, 0, - 5.6), size3 = (8.7, 11.2, 11.1), color = ''#74b9ff''\<rparr>]
   \<and> 3 \<le> fst (size3 (hd (extract_downtown (\<lambda>p. p) [lot])))
   \<and> 3 \<le> snd (snd (size3 (hd (extract_downtown (\<lambda>p. p) [lot]))))
   \<and> 3 \<le> fst (size3 (hd (rebuild_buildings downtown_frame (\<lambda>p. p) [lot])))
   \<and> 3 \<le> snd (snd (size3 (hd (rebuild_buildings downtown_frame (\<lambda>p. p) [lot]))))"
proof -
  have a: "extract_downtown (\<lambda>p. p) [lot] =
     [\<lparr>bldg_id = 1, footprint = [(0, 0), (8.7, 0), (8.7, - 11.1), (0, - 11.1)],
       position = (4.4, 0, - 5.6), size3 = (8.7, 11.2, 11.1), color = ''#74b9ff''\<rparr>]"
    by (simp add: extract_downtown_def List.map_filter_simps downtown_shape_lot
        finish_buildings_def enumerate_simps colors_def)
  have b: "rebuild_buildings downtown_frame (\<lambda>p. p) [lot] =
     [\<lparr>bldg_id = 1, footprint = [(0, 0), (8.7, 0), (8.7, - 11.1), (0, - 11.1)],
       position = (4.4, 0, - 5.6), size3 = (8.7, 11.2, 11.1), color = ''#74b9ff''\<rparr>]"
    by (simp add: rebuild_buildings_def List.map_filter_simps rebuild_shape_lot
        finish_buildings_def enumerate_simps colors_def)
  have c: "hd (extract_downtown (\<lambda>p. p) [lot]) \<in> set (extract_downtown (\<lambda>p. p) [lot])"
    unfolding a by simp
  have d: "hd (rebuild_buildings downtown_frame (\<lambda>p. p) [lot])
      \<in> set (rebuild_buildings downtown_frame (\<lambda>p. p) [lot])"
    unfolding b by simp
  from a b c d emitted_buildings_min_size [of "\<lambda>p. p" "[lot]" downtown_frame]
  show ?thesis by blast
qed

end
